theory Spec2Isabelle
  imports Main
begin

section \<open>The constraint algebra of \<open>constraints.go\<close> (package vsolver)\<close>

subsection \<open>The semver package, as the code uses it\<close>

text \<open>
  \<open>constraints.go\<close> imports \<open>github.com/Masterminds/semver\<close> and calls six things of it:
  \<open>semver.None()\<close>, \<open>semver.IsNone(c)\<close>, \<open>semver.NewConstraint(body)\<close>, and on a
  \<open>semver.Constraint\<close> the methods \<open>Intersect\<close> and \<open>Matches\<close>; a \<open>*semver.Version\<close> is
  passed where a \<open>semver.Constraint\<close> is expected. The package is not part of the
  repository, so it is a parameter \<open>L\<close> of every function that calls it: \<open>'c\<close> is
  \<open>semver.Constraint\<close>, \<open>'v\<close> is \<open>*semver.Version\<close>, an \<open>error\<close> is its message and
  \<open>None\<close> is the nil error.
\<close>

record ('c, 'v) semver =
  semver_None :: "'c"
  semver_IsNone :: "'c \<Rightarrow> bool"
  semver_NewConstraint :: "string \<Rightarrow> string + 'c"
  semver_Intersect :: "'c \<Rightarrow> 'c \<Rightarrow> 'c"
  semver_Matches :: "'c \<Rightarrow> 'v \<Rightarrow> string option"
  semver_Version :: "'v \<Rightarrow> 'c"

text \<open>
  The one fact about the package that the code relies on: \<open>semver.IsNone\<close> recognises
  the value \<open>semver.None()\<close>.
\<close>

definition IsNone_None :: "('c, 'v) semver \<Rightarrow> bool" where
  "IsNone_None L = semver_IsNone L (semver_None L)"

subsection \<open>Versions and constraints\<close>

text \<open>
  Modelled from the spec: the declarations of the version types (\<open>version.go\<close>) are not
  in \<open>src/\<close>. \<open>constraints.go\<close> uses five of them: \<open>Revision\<close>, \<open>floatingVersion\<close> and
  \<open>plainVersion\<close> are conversions of a string, \<open>semverVersion\<close> is a struct with the field
  \<open>sv\<close>, and \<open>versionPair\<close> is a struct whose field \<open>v\<close> is again a version (the code
  asserts \<open>tv.v.(semverVersion)\<close>); the spec calls the pair a revision annotated with a
  version, which is the second field here.
\<close>

datatype 'v Version =
    Revision string
  | floatingVersion string
  | plainVersion string
  | semverVersion 'v
  | versionPair "'v Version" string

text \<open>
  The dynamic types of a \<open>Constraint\<close> interface value: the three structs declared in
  \<open>constraints.go\<close>, and the version types, which \<open>NewConstraint\<close> returns as constraints
  and \<open>semverConstraint.Intersect\<close> switches on. \<open>ofVersion v\<close> is the version \<open>v\<close> held in
  a \<open>Constraint\<close> variable. The package variables \<open>any\<close> and \<open>none\<close> are the values
  \<open>anyConstraint\<close> and \<open>noneConstraint\<close>.
\<close>

datatype ('c, 'v) Constraint =
    semverConstraint 'c
  | anyConstraint
  | noneConstraint
  | ofVersion "'v Version"

text \<open>
  Modelled from the spec: the declaration of \<open>ConstraintType\<close> and of its three constants
  is not in \<open>src/\<close>. The spec names the kinds branch, revision and version;
  \<open>OtherConstraintType n\<close> stands for every other value of the type, which the \<open>default\<close>
  branch of \<open>NewConstraint\<close> receives.
\<close>

datatype ConstraintType =
    BranchConstraint
  | RevisionConstraint
  | VersionConstraint
  | OtherConstraintType nat

subsection \<open>NewConstraint\<close>

text \<open>The result pair \<open>(Constraint, error)\<close> is a sum: \<open>Inl\<close> the error, \<open>Inr\<close> the constraint.\<close>

definition NewConstraint ::
  "('c, 'v) semver \<Rightarrow> ConstraintType \<Rightarrow> string \<Rightarrow> string + ('c, 'v) Constraint" where
  "NewConstraint L t body =
     (case t of
        BranchConstraint \<Rightarrow> Inr (ofVersion (floatingVersion body))
      | RevisionConstraint \<Rightarrow> Inr (ofVersion (Revision body))
      | VersionConstraint \<Rightarrow>
          (case semver_NewConstraint L body of
             Inl err \<Rightarrow> Inr (ofVersion (plainVersion body))
           | Inr c \<Rightarrow> Inr (semverConstraint c))
      | OtherConstraintType n \<Rightarrow> Inl ''Unknown ConstraintType provided'')"

subsection \<open>semverConstraint\<close>

text \<open>The receiver \<open>semverConstraint{c: c}\<close> is given by its field \<open>c\<close>.\<close>

fun semverConstraint_Matches :: "('c, 'v) semver \<Rightarrow> 'c \<Rightarrow> 'v Version \<Rightarrow> bool" where
  "semverConstraint_Matches L c (semverVersion sv) = (semver_Matches L c sv = None)"
| "semverConstraint_Matches L c (versionPair (semverVersion sv) r) =
     (semver_Matches L c sv = None)"
| "semverConstraint_Matches L c v = False"

text \<open>The value of the local variable \<open>rc\<close> after the type switch of \<open>Intersect\<close>.\<close>

fun semverConstraint_Intersect_rc ::
  "('c, 'v) semver \<Rightarrow> 'c \<Rightarrow> ('c, 'v) Constraint \<Rightarrow> 'c" where
  "semverConstraint_Intersect_rc L c (ofVersion (semverVersion sv)) =
     semver_Intersect L c (semver_Version L sv)"
| "semverConstraint_Intersect_rc L c (semverConstraint c') = semver_Intersect L c c'"
| "semverConstraint_Intersect_rc L c (ofVersion (versionPair (semverVersion sv) r)) =
     semver_Intersect L c (semver_Version L sv)"
| "semverConstraint_Intersect_rc L c c2 = semver_None L"

definition semverConstraint_Intersect ::
  "('c, 'v) semver \<Rightarrow> 'c \<Rightarrow> ('c, 'v) Constraint \<Rightarrow> ('c, 'v) Constraint" where
  "semverConstraint_Intersect L c c2 =
     (let rc = semverConstraint_Intersect_rc L c c2
      in if semver_IsNone L rc then noneConstraint else semverConstraint rc)"

definition semverConstraint_MatchesAny ::
  "('c, 'v) semver \<Rightarrow> 'c \<Rightarrow> ('c, 'v) Constraint \<Rightarrow> bool" where
  "semverConstraint_MatchesAny L c c2 = (semverConstraint_Intersect L c c2 \<noteq> noneConstraint)"

subsection \<open>anyConstraint and noneConstraint\<close>

definition anyConstraint_MatchesAny :: "('c, 'v) Constraint \<Rightarrow> bool" where
  "anyConstraint_MatchesAny c = True"

definition anyConstraint_Intersect :: "('c, 'v) Constraint \<Rightarrow> ('c, 'v) Constraint" where
  "anyConstraint_Intersect c = c"

definition noneConstraint_MatchesAny :: "('c, 'v) Constraint \<Rightarrow> bool" where
  "noneConstraint_MatchesAny c = False"

definition noneConstraint_Intersect :: "('c, 'v) Constraint \<Rightarrow> ('c, 'v) Constraint" where
  "noneConstraint_Intersect c = noneConstraint"

subsection \<open>The version types as constraints\<close>

text \<open>
  Modelled from the spec: the methods \<open>Intersect\<close> and \<open>MatchesAny\<close> of the version types
  (\<open>version.go\<close>) are not in \<open>src/\<close>. The spec (4.3, 4.4) has every variant special-case
  the universal and the empty constraint on the other side, return the same constraint
  for two instances of the same pinning variant with equal keys, and return empty
  otherwise; compatibility is defined as a non-empty intersection. The spec gives the
  bare semantic version and the pair no intersection of their own, so beyond the two
  sentinels they get empty here.
\<close>

fun same_pin :: "'v Version \<Rightarrow> 'v Version \<Rightarrow> bool" where
  "same_pin (Revision a) (Revision b) = (a = b)"
| "same_pin (floatingVersion a) (floatingVersion b) = (a = b)"
| "same_pin (plainVersion a) (plainVersion b) = (a = b)"
| "same_pin v w = False"

fun Version_Intersect :: "'v Version \<Rightarrow> ('c, 'v) Constraint \<Rightarrow> ('c, 'v) Constraint" where
  "Version_Intersect v anyConstraint = ofVersion v"
| "Version_Intersect v noneConstraint = noneConstraint"
| "Version_Intersect v (semverConstraint c) = noneConstraint"
| "Version_Intersect v (ofVersion w) = (if same_pin v w then ofVersion v else noneConstraint)"

definition Version_MatchesAny :: "'v Version \<Rightarrow> ('c, 'v) Constraint \<Rightarrow> bool" where
  "Version_MatchesAny v c = (Version_Intersect v c \<noteq> (noneConstraint :: ('c, 'v) Constraint))"

subsection \<open>Method calls on a Constraint value\<close>

text \<open>\<open>a.Intersect(b)\<close> and \<open>a.MatchesAny(b)\<close> run the method of the dynamic type of \<open>a\<close>.\<close>

fun Intersect ::
  "('c, 'v) semver \<Rightarrow> ('c, 'v) Constraint \<Rightarrow> ('c, 'v) Constraint \<Rightarrow> ('c, 'v) Constraint" where
  "Intersect L (semverConstraint c) c2 = semverConstraint_Intersect L c c2"
| "Intersect L anyConstraint c2 = anyConstraint_Intersect c2"
| "Intersect L noneConstraint c2 = noneConstraint_Intersect c2"
| "Intersect L (ofVersion v) c2 = Version_Intersect v c2"

fun MatchesAny ::
  "('c, 'v) semver \<Rightarrow> ('c, 'v) Constraint \<Rightarrow> ('c, 'v) Constraint \<Rightarrow> bool" where
  "MatchesAny L (semverConstraint c) c2 = semverConstraint_MatchesAny L c c2"
| "MatchesAny L anyConstraint c2 = anyConstraint_MatchesAny c2"
| "MatchesAny L noneConstraint c2 = noneConstraint_MatchesAny c2"
| "MatchesAny L (ofVersion v) c2 = Version_MatchesAny v c2"

subsection \<open>A semver package to run the code on\<close>

text \<open>
  Modelled from the spec: the semver package itself (\<open>github.com/Masterminds/semver\<close>)
  is not in \<open>src/\<close>. This instance follows the range sub-algebra of the spec (4.2): a
  range is a union of intervals of versions \<open>major.minor.patch\<close>, a version is a member
  iff it falls within at least one interval, intersection is the product of the interval
  bounds keeping the non-empty intervals, and the empty union is the value of
  \<open>semver.None()\<close>. It serves to evaluate the code on concrete constraints; every
  theorem about the code is stated for an arbitrary package \<open>L\<close>.
\<close>

type_synonym sv = "nat \<times> nat \<times> nat"

fun sv_less :: "sv \<Rightarrow> sv \<Rightarrow> bool" where
  "sv_less (a, b, c) (a', b', c') = (a < a' \<or> (a = a' \<and> (b < b' \<or> (b = b' \<and> c < c'))))"

datatype bound = Unbounded | Incl sv | Excl sv

type_synonym interval = "bound \<times> bound"

fun above :: "bound \<Rightarrow> sv \<Rightarrow> bool" where
  "above Unbounded v = True"
| "above (Incl a) v = (\<not> sv_less v a)"
| "above (Excl a) v = sv_less a v"

fun below :: "bound \<Rightarrow> sv \<Rightarrow> bool" where
  "below Unbounded v = True"
| "below (Incl b) v = (\<not> sv_less b v)"
| "below (Excl b) v = sv_less v b"

definition inside :: "interval \<Rightarrow> sv \<Rightarrow> bool" where
  "inside i v = (above (fst i) v \<and> below (snd i) v)"

fun bound_sv :: "bound \<Rightarrow> sv option" where
  "bound_sv Unbounded = None"
| "bound_sv (Incl a) = Some a"
| "bound_sv (Excl a) = Some a"

fun is_Excl :: "bound \<Rightarrow> bool" where
  "is_Excl (Excl a) = True"
| "is_Excl b = False"

definition tighter_lower :: "bound \<Rightarrow> bound \<Rightarrow> bound" where
  "tighter_lower x y =
     (case (bound_sv x, bound_sv y) of
        (None, _) \<Rightarrow> y
      | (_, None) \<Rightarrow> x
      | (Some a, Some b) \<Rightarrow>
          if sv_less a b then y else if sv_less b a then x else if is_Excl x then x else y)"

definition tighter_upper :: "bound \<Rightarrow> bound \<Rightarrow> bound" where
  "tighter_upper x y =
     (case (bound_sv x, bound_sv y) of
        (None, _) \<Rightarrow> y
      | (_, None) \<Rightarrow> x
      | (Some a, Some b) \<Rightarrow>
          if sv_less a b then x else if sv_less b a then y else if is_Excl x then x else y)"

definition interval_intersect :: "interval \<Rightarrow> interval \<Rightarrow> interval" where
  "interval_intersect i j = (tighter_lower (fst i) (fst j), tighter_upper (snd i) (snd j))"

definition nonempty :: "interval \<Rightarrow> bool" where
  "nonempty i =
     (case (bound_sv (fst i), bound_sv (snd i)) of
        (Some a, Some b) \<Rightarrow>
          if is_Excl (fst i) \<or> is_Excl (snd i) then sv_less a b else \<not> sv_less b a
      | _ \<Rightarrow> True)"

definition range_Intersect :: "interval list \<Rightarrow> interval list \<Rightarrow> interval list" where
  "range_Intersect xs ys =
     filter nonempty (concat (map (\<lambda>i. map (interval_intersect i) ys) xs))"

definition range_Matches :: "interval list \<Rightarrow> sv \<Rightarrow> string option" where
  "range_Matches xs v = (if list_ex (\<lambda>i. inside i v) xs then None else Some ''no match'')"

definition digit :: "char \<Rightarrow> nat option" where
  "digit ch = (let n = (of_char ch :: nat) in if 48 \<le> n \<and> n \<le> 57 then Some (n - 48) else None)"

fun number_acc :: "nat \<Rightarrow> string \<Rightarrow> nat option" where
  "number_acc n [] = Some n"
| "number_acc n (ch # s) = (case digit ch of None \<Rightarrow> None | Some d \<Rightarrow> number_acc (10 * n + d) s)"

definition number :: "string \<Rightarrow> nat option" where
  "number s = (if s = [] then None else number_acc 0 s)"

fun split_on :: "char \<Rightarrow> string \<Rightarrow> string list" where
  "split_on d [] = [[]]"
| "split_on d (ch # s) =
     (if ch = d then [] # split_on d s
      else (case split_on d s of [] \<Rightarrow> [[ch]] | w # ws \<Rightarrow> (ch # w) # ws))"

definition parse_version :: "string \<Rightarrow> sv option" where
  "parse_version s =
     (case map number (split_on CHR ''.'' s) of
        [Some a, Some b, Some c] \<Rightarrow> Some (a, b, c)
      | _ \<Rightarrow> None)"

definition parse_comparator :: "string \<Rightarrow> interval option" where
  "parse_comparator s =
     (if take 2 s = ''>='' then map_option (\<lambda>v. (Incl v, Unbounded)) (parse_version (drop 2 s))
      else if take 2 s = ''<='' then map_option (\<lambda>v. (Unbounded, Incl v)) (parse_version (drop 2 s))
      else if take 1 s = ''>'' then map_option (\<lambda>v. (Excl v, Unbounded)) (parse_version (drop 1 s))
      else if take 1 s = ''<'' then map_option (\<lambda>v. (Unbounded, Excl v)) (parse_version (drop 1 s))
      else if take 1 s = ''='' then map_option (\<lambda>v. (Incl v, Incl v)) (parse_version (drop 1 s))
      else map_option (\<lambda>v. (Incl v, Incl v)) (parse_version s))"

definition range_NewConstraint :: "string \<Rightarrow> string + interval list" where
  "range_NewConstraint s =
     (if s = ''*'' then Inr [(Unbounded, Unbounded)]
      else (case those (map parse_comparator (split_on CHR '','' s)) of
              None \<Rightarrow> Inl ''improper constraint''
            | Some is \<Rightarrow> Inr (fold (\<lambda>i acc. range_Intersect acc [i]) is [(Unbounded, Unbounded)])))"

definition semver_model :: "(interval list, sv) semver" where
  "semver_model =
     \<lparr> semver_None = [],
       semver_IsNone = (\<lambda>c. c = []),
       semver_NewConstraint = range_NewConstraint,
       semver_Intersect = range_Intersect,
       semver_Matches = range_Matches,
       semver_Version = (\<lambda>v. [(Incl v, Incl v)]) \<rparr>"

section \<open>Properties\<close>

subsection \<open>Auxiliary facts\<close>

lemma semverConstraint_Intersect_none_iff:
  "semverConstraint_Intersect L c c2 = noneConstraint \<longleftrightarrow>
   semver_IsNone L (semverConstraint_Intersect_rc L c c2)"
  by (simp add: semverConstraint_Intersect_def Let_def)

lemma semverConstraint_Intersect_range_iff:
  "semverConstraint_Intersect L c c2 = semverConstraint r \<longleftrightarrow>
   r = semverConstraint_Intersect_rc L c c2 \<and> \<not> semver_IsNone L r"
  by (auto simp add: semverConstraint_Intersect_def Let_def)

lemma semverConstraint_Intersect_no_rc:
  assumes "IsNone_None L" and "semverConstraint_Intersect_rc L c c2 = semver_None L"
  shows "semverConstraint_Intersect L c c2 = noneConstraint"
  using assms by (simp add: semverConstraint_Intersect_none_iff IsNone_None_def)

lemma semver_model_IsNone_None: "IsNone_None semver_model"
  by (simp add: IsNone_None_def semver_model_def)

lemma semver_model_simps:
  "semver_None semver_model = []"
  "semver_IsNone semver_model c = (c = [])"
  "semver_NewConstraint semver_model = range_NewConstraint"
  "semver_Intersect semver_model = range_Intersect"
  "semver_Matches semver_model = range_Matches"
  "semver_Version semver_model v = [(Incl v, Incl v)]"
  by (simp_all add: semver_model_def)

lemma parse_lower_bound: "range_NewConstraint ''>=1.0.0'' = Inr [(Incl (1, 0, 0), Unbounded)]"
  by code_simp

lemma parse_failure: "range_NewConstraint ''not-a-semver-string'' = Inl ''improper constraint''"
  by code_simp

lemma range_Intersect_disjoint:
  "range_Intersect [(Incl (2, 0, 0), Unbounded)] [(Unbounded, Excl (1, 0, 0))] = []"
  by code_simp

lemma range_Intersect_overlap:
  "range_Intersect [(Incl (1, 0, 0), Excl (2, 0, 0))] [(Incl (1, 5, 0), Unbounded)] =
     [(Incl (1, 5, 0), Excl (2, 0, 0))]"
  by code_simp

lemma range_Intersect_member:
  "range_Intersect [(Incl (1, 0, 0), Unbounded)] [(Incl (1, 2, 3), Incl (1, 2, 3))] =
     [(Incl (1, 2, 3), Incl (1, 2, 3))]"
  by code_simp

subsection \<open>Identity\<close>

text \<open>
  C1. The universal constraint is a left identity of intersection for every operand,
  but a range constraint intersected with the universal constraint is the empty
  constraint and not that range constraint: the type switch of
  \<open>semverConstraint.Intersect\<close> has no case for \<open>anyConstraint\<close>, so \<open>rc\<close> stays
  \<open>semver.None()\<close>.
\<close>

theorem range_Intersect_any_is_none:
  assumes "IsNone_None L"
  shows "Intersect L anyConstraint k = k
       \<and> Intersect L (semverConstraint c) anyConstraint = noneConstraint
       \<and> Intersect L (semverConstraint c) anyConstraint \<noteq> semverConstraint c"
  using assms by (simp add: anyConstraint_Intersect_def semverConstraint_Intersect_no_rc)

theorem range_Intersect_any_is_none_witness:
  "IsNone_None semver_model
 \<and> Intersect semver_model anyConstraint (semverConstraint [(Incl (1, 0, 0), Unbounded)]) =
     semverConstraint [(Incl (1, 0, 0), Unbounded)]
 \<and> Intersect semver_model (semverConstraint [(Incl (1, 0, 0), Unbounded)]) anyConstraint =
     noneConstraint
 \<and> Intersect semver_model (semverConstraint [(Incl (1, 0, 0), Unbounded)]) anyConstraint \<noteq>
     semverConstraint [(Incl (1, 0, 0), Unbounded)]"
  using range_Intersect_any_is_none [OF semver_model_IsNone_None,
      of "semverConstraint [(Incl (1, 0, 0), Unbounded)]" "[(Incl (1, 0, 0), Unbounded)]"]
    semver_model_IsNone_None
  by simp

subsection \<open>Commutativity\<close>

text \<open>
  C2. Intersection is not commutative on the pair of the universal constraint and a
  range constraint: with the universal constraint as the receiver the result is the
  range constraint, with the range constraint as the receiver it is the empty
  constraint.
\<close>

theorem Intersect_any_range_not_commutative:
  assumes "IsNone_None L"
  shows "Intersect L anyConstraint (semverConstraint c) = semverConstraint c
       \<and> Intersect L (semverConstraint c) anyConstraint = noneConstraint
       \<and> Intersect L anyConstraint (semverConstraint c) \<noteq>
           Intersect L (semverConstraint c) anyConstraint"
  using assms by (simp add: anyConstraint_Intersect_def semverConstraint_Intersect_no_rc)

theorem Intersect_any_range_not_commutative_witness:
  "IsNone_None semver_model
 \<and> Intersect semver_model anyConstraint (semverConstraint [(Incl (1, 0, 0), Unbounded)]) \<noteq>
     Intersect semver_model (semverConstraint [(Incl (1, 0, 0), Unbounded)]) anyConstraint"
  using Intersect_any_range_not_commutative [OF semver_model_IsNone_None,
      of "[(Incl (1, 0, 0), Unbounded)]"]
    semver_model_IsNone_None
  by simp

subsection \<open>Compatibility\<close>

text \<open>
  C3. With the universal constraint as the receiver and the empty constraint as the
  operand, the compatibility test answers true although the intersection is the empty
  constraint: \<open>anyConstraint.MatchesAny\<close> returns true without looking at its operand.
\<close>

theorem MatchesAny_any_none_disagrees:
  "MatchesAny L anyConstraint noneConstraint
 \<and> Intersect L anyConstraint noneConstraint = noneConstraint
 \<and> MatchesAny L anyConstraint noneConstraint \<noteq>
     (Intersect L anyConstraint noneConstraint \<noteq> noneConstraint)"
  by (simp add: anyConstraint_MatchesAny_def anyConstraint_Intersect_def)

subsection \<open>Absorption\<close>

text \<open>
  C4. The empty constraint absorbs on both sides: for every constraint \<open>c\<close>,
  \<open>c.Intersect(none)\<close> is \<open>none\<close> and \<open>none.Intersect(c)\<close> is \<open>none\<close>.
\<close>

theorem Intersect_none_absorbs:
  assumes "IsNone_None L"
  shows "Intersect L c noneConstraint = noneConstraint
       \<and> Intersect L noneConstraint c = noneConstraint"
  using assms
  by (cases c)
     (simp_all add: anyConstraint_Intersect_def noneConstraint_Intersect_def
        semverConstraint_Intersect_no_rc)

theorem Intersect_none_absorbs_witness:
  "IsNone_None semver_model
 \<and> Intersect semver_model (semverConstraint [(Incl (1, 0, 0), Unbounded)]) noneConstraint =
     noneConstraint
 \<and> Intersect semver_model noneConstraint (semverConstraint [(Incl (1, 0, 0), Unbounded)]) =
     noneConstraint"
  using Intersect_none_absorbs [OF semver_model_IsNone_None,
      of "semverConstraint [(Incl (1, 0, 0), Unbounded)]"]
    semver_model_IsNone_None
  by simp

subsection \<open>Normalisation of empty results\<close>

text \<open>
  C5. Whenever the semver intersection computed by \<open>semverConstraint.Intersect\<close> is
  recognised as empty by \<open>semver.IsNone\<close>, the method returns the empty constraint
  \<open>none\<close>; a result that is a range constraint never wraps a value that
  \<open>semver.IsNone\<close> recognises, and there is no third kind of result.
\<close>

theorem semverConstraint_Intersect_normalizes:
  "(semver_IsNone L (semverConstraint_Intersect_rc L c c2) \<longrightarrow>
      Intersect L (semverConstraint c) c2 = noneConstraint)
 \<and> (\<forall>r. Intersect L (semverConstraint c) c2 = semverConstraint r \<longrightarrow>
        r = semverConstraint_Intersect_rc L c c2 \<and> \<not> semver_IsNone L r)
 \<and> (Intersect L (semverConstraint c) c2 = noneConstraint
      \<or> Intersect L (semverConstraint c) c2 =
           semverConstraint (semverConstraint_Intersect_rc L c c2))"
proof (intro conjI allI impI)
  assume "semver_IsNone L (semverConstraint_Intersect_rc L c c2)"
  then show "Intersect L (semverConstraint c) c2 = noneConstraint"
    by (simp add: semverConstraint_Intersect_none_iff)
next
  fix r
  assume "Intersect L (semverConstraint c) c2 = semverConstraint r"
  then show "r = semverConstraint_Intersect_rc L c c2"
    by (simp add: semverConstraint_Intersect_range_iff)
next
  fix r
  assume "Intersect L (semverConstraint c) c2 = semverConstraint r"
  then have "semverConstraint_Intersect L c c2 = semverConstraint r"
    by simp
  then show "\<not> semver_IsNone L r"
    unfolding semverConstraint_Intersect_range_iff by (rule conjunct2)
next
  show "Intersect L (semverConstraint c) c2 = noneConstraint
      \<or> Intersect L (semverConstraint c) c2 =
           semverConstraint (semverConstraint_Intersect_rc L c c2)"
    by (simp add: semverConstraint_Intersect_def Let_def)
qed

theorem semverConstraint_Intersect_normalizes_witness:
  "semver_IsNone semver_model
     (semverConstraint_Intersect_rc semver_model [(Incl (2, 0, 0), Unbounded)]
        (semverConstraint [(Unbounded, Excl (1, 0, 0))]))
 \<and> Intersect semver_model (semverConstraint [(Incl (2, 0, 0), Unbounded)])
       (semverConstraint [(Unbounded, Excl (1, 0, 0))]) = noneConstraint
 \<and> Intersect semver_model (semverConstraint [(Incl (1, 0, 0), Excl (2, 0, 0))])
       (semverConstraint [(Incl (1, 5, 0), Unbounded)]) =
     semverConstraint [(Incl (1, 5, 0), Excl (2, 0, 0))]
 \<and> \<not> semver_IsNone semver_model [(Incl (1, 5, 0), Excl (2, 0, 0))]"
proof -
  have empty: "semver_IsNone semver_model
     (semverConstraint_Intersect_rc semver_model [(Incl (2, 0, 0), Unbounded)]
        (semverConstraint [(Unbounded, Excl (1, 0, 0))]))"
    by (simp add: semver_model_simps range_Intersect_disjoint del: One_nat_def)
  have overlap: "Intersect semver_model (semverConstraint [(Incl (1, 0, 0), Excl (2, 0, 0))])
       (semverConstraint [(Incl (1, 5, 0), Unbounded)]) =
     semverConstraint [(Incl (1, 5, 0), Excl (2, 0, 0))]"
    by (simp add: semverConstraint_Intersect_def semver_model_simps range_Intersect_overlap
        del: One_nat_def)
  from empty overlap
    semverConstraint_Intersect_normalizes [of semver_model "[(Incl (2, 0, 0), Unbounded)]"
      "semverConstraint [(Unbounded, Excl (1, 0, 0))]"]
    semverConstraint_Intersect_normalizes [of semver_model
      "[(Incl (1, 0, 0), Excl (2, 0, 0))]" "semverConstraint [(Incl (1, 5, 0), Unbounded)]"]
  show ?thesis by blast
qed

subsection \<open>The factory\<close>

text \<open>
  C6. For every source string, \<open>NewConstraint\<close> with the version kind returns a
  constraint and no error: the range constraint of the parsed expression when
  \<open>semver.NewConstraint\<close> succeeds, and the literal constraint \<open>plainVersion\<close> over the
  raw string when it fails.
\<close>

theorem NewConstraint_version_fallback:
  "(\<exists>k. NewConstraint L VersionConstraint body = Inr k)
 \<and> (\<forall>c. semver_NewConstraint L body = Inr c \<longrightarrow>
        NewConstraint L VersionConstraint body = Inr (semverConstraint c))
 \<and> (\<forall>err. semver_NewConstraint L body = Inl err \<longrightarrow>
        NewConstraint L VersionConstraint body = Inr (ofVersion (plainVersion body)))"
  by (simp add: NewConstraint_def split: sum.splits)

theorem NewConstraint_version_fallback_witness:
  "semver_NewConstraint semver_model ''>=1.0.0'' = Inr [(Incl (1, 0, 0), Unbounded)]
 \<and> NewConstraint semver_model VersionConstraint ''>=1.0.0'' =
     Inr (semverConstraint [(Incl (1, 0, 0), Unbounded)])
 \<and> semver_NewConstraint semver_model ''not-a-semver-string'' = Inl ''improper constraint''
 \<and> NewConstraint semver_model VersionConstraint ''not-a-semver-string'' =
     Inr (ofVersion (plainVersion ''not-a-semver-string''))"
proof -
  have ok: "semver_NewConstraint semver_model ''>=1.0.0'' = Inr [(Incl (1, 0, 0), Unbounded)]"
    by (simp only: semver_model_simps parse_lower_bound)
  have bad: "semver_NewConstraint semver_model ''not-a-semver-string'' =
      Inl ''improper constraint''"
    by (simp only: semver_model_simps parse_failure)
  from ok bad
    NewConstraint_version_fallback [of semver_model "''>=1.0.0''"]
    NewConstraint_version_fallback [of semver_model "''not-a-semver-string''"]
  show ?thesis by blast
qed

text \<open>
  C7. \<open>NewConstraint\<close> fails, with the error "Unknown ConstraintType provided" and no
  constraint, exactly when the kind is none of branch, revision and version; for each of
  these three kinds it returns a constraint and a nil error, whatever the string.
\<close>

theorem NewConstraint_unknown_kind:
  "(t \<in> {BranchConstraint, RevisionConstraint, VersionConstraint} \<longrightarrow>
      (\<exists>k. NewConstraint L t body = Inr k))
 \<and> (t \<notin> {BranchConstraint, RevisionConstraint, VersionConstraint} \<longrightarrow>
      NewConstraint L t body = Inl ''Unknown ConstraintType provided'')
 \<and> ((\<exists>e. NewConstraint L t body = Inl e) \<longleftrightarrow>
      t \<notin> {BranchConstraint, RevisionConstraint, VersionConstraint})"
proof (cases t)
  case BranchConstraint
  then show ?thesis by (simp add: NewConstraint_def)
next
  case RevisionConstraint
  then show ?thesis by (simp add: NewConstraint_def)
next
  case VersionConstraint
  then show ?thesis by (simp add: NewConstraint_def split: sum.splits)
next
  case (OtherConstraintType n)
  then show ?thesis by (simp add: NewConstraint_def)
qed

theorem NewConstraint_unknown_kind_witness:
  "RevisionConstraint \<in> {BranchConstraint, RevisionConstraint, VersionConstraint}
 \<and> (\<exists>k. NewConstraint semver_model RevisionConstraint ''abc123'' = Inr k)
 \<and> OtherConstraintType 7 \<notin> {BranchConstraint, RevisionConstraint, VersionConstraint}
 \<and> NewConstraint semver_model (OtherConstraintType 7) ''x'' =
     Inl ''Unknown ConstraintType provided''"
  using NewConstraint_unknown_kind [of RevisionConstraint semver_model "''abc123''"]
    NewConstraint_unknown_kind [of "OtherConstraintType 7" semver_model "''x''"]
  by simp

subsection \<open>Membership\<close>

text \<open>
  C8. A range constraint matches a version iff the version is a semantic version that
  the semver constraint matches, or a pair whose contained version is such a semantic
  version; for a revision, a floating version, a plain version and a pair that contains
  none of a semantic version it returns false.
\<close>

theorem semverConstraint_Matches_iff:
  "(semverConstraint_Matches L c v \<longleftrightarrow>
      (\<exists>sv. (v = semverVersion sv \<or> (\<exists>r. v = versionPair (semverVersion sv) r))
            \<and> semver_Matches L c sv = None))
 \<and> \<not> semverConstraint_Matches L c (Revision s)
 \<and> \<not> semverConstraint_Matches L c (floatingVersion s)
 \<and> \<not> semverConstraint_Matches L c (plainVersion s)
 \<and> \<not> semverConstraint_Matches L c (versionPair (Revision s) r)
 \<and> \<not> semverConstraint_Matches L c (versionPair (floatingVersion s) r)
 \<and> \<not> semverConstraint_Matches L c (versionPair (plainVersion s) r)
 \<and> \<not> semverConstraint_Matches L c (versionPair (versionPair w r') r)"
proof -
  have "semverConstraint_Matches L c v \<longleftrightarrow>
      (\<exists>sv. (v = semverVersion sv \<or> (\<exists>r. v = versionPair (semverVersion sv) r))
            \<and> semver_Matches L c sv = None)"
    by (induction L c v rule: semverConstraint_Matches.induct) simp_all
  then show ?thesis by simp
qed

subsection \<open>Operands of another variant\<close>

text \<open>
  C9. A range constraint intersected with a revision, a floating version or a plain
  version, each taken as a constraint, is the empty constraint.
\<close>

theorem semverConstraint_Intersect_other_variant:
  assumes "IsNone_None L"
  shows "Intersect L (semverConstraint c) (ofVersion (Revision s)) = noneConstraint
       \<and> Intersect L (semverConstraint c) (ofVersion (floatingVersion s)) = noneConstraint
       \<and> Intersect L (semverConstraint c) (ofVersion (plainVersion s)) = noneConstraint"
  using assms by (simp add: semverConstraint_Intersect_no_rc)

theorem semverConstraint_Intersect_other_variant_witness:
  "IsNone_None semver_model
 \<and> Intersect semver_model (semverConstraint [(Incl (1, 0, 0), Unbounded)])
       (ofVersion (Revision ''abc123'')) = noneConstraint
 \<and> Intersect semver_model (semverConstraint [(Incl (1, 0, 0), Unbounded)])
       (ofVersion (floatingVersion ''abc123'')) = noneConstraint
 \<and> Intersect semver_model (semverConstraint [(Incl (1, 0, 0), Unbounded)])
       (ofVersion (plainVersion ''abc123'')) = noneConstraint"
  using semverConstraint_Intersect_other_variant [OF semver_model_IsNone_None,
      of "[(Incl (1, 0, 0), Unbounded)]" "''abc123''"]
    semver_model_IsNone_None
  by simp

text \<open>
  C10. A range constraint intersected with a semantic version, or with a pair that
  contains a semantic version, is the semver intersection of its constraint with that
  version, and \<open>none\<close> when \<open>semver.IsNone\<close> recognises that intersection; intersected
  with a pair that contains no semantic version it is \<open>none\<close>.
\<close>

theorem semverConstraint_Intersect_version:
  "Intersect L (semverConstraint c) (ofVersion (semverVersion sv)) =
     (if semver_IsNone L (semver_Intersect L c (semver_Version L sv)) then noneConstraint
      else semverConstraint (semver_Intersect L c (semver_Version L sv)))
 \<and> Intersect L (semverConstraint c) (ofVersion (versionPair (semverVersion sv) r)) =
     (if semver_IsNone L (semver_Intersect L c (semver_Version L sv)) then noneConstraint
      else semverConstraint (semver_Intersect L c (semver_Version L sv)))
 \<and> (IsNone_None L \<and> (\<forall>sv'. w \<noteq> semverVersion sv') \<longrightarrow>
      Intersect L (semverConstraint c) (ofVersion (versionPair w r)) = noneConstraint)"
proof -
  have "semverConstraint_Intersect_rc L c (ofVersion (versionPair w r)) = semver_None L"
    if "\<forall>sv'. w \<noteq> semverVersion sv'"
    using that by (cases w) simp_all
  then show ?thesis
    by (simp add: semverConstraint_Intersect_def Let_def IsNone_None_def)
qed

theorem semverConstraint_Intersect_version_witness:
  "Intersect semver_model (semverConstraint [(Incl (1, 0, 0), Unbounded)])
       (ofVersion (semverVersion (1, 2, 3))) =
     semverConstraint [(Incl (1, 2, 3), Incl (1, 2, 3))]
 \<and> Intersect semver_model (semverConstraint [(Incl (1, 0, 0), Unbounded)])
       (ofVersion (versionPair (semverVersion (1, 2, 3)) ''abc123'')) =
     semverConstraint [(Incl (1, 2, 3), Incl (1, 2, 3))]
 \<and> IsNone_None semver_model
 \<and> (\<forall>sv'. Revision ''abc123'' \<noteq> (semverVersion sv' :: sv Version))
 \<and> Intersect semver_model (semverConstraint [(Incl (1, 0, 0), Unbounded)])
       (ofVersion (versionPair (Revision ''abc123'') ''abc123'')) = noneConstraint"
proof -
  have distinct: "\<forall>sv'. Revision ''abc123'' \<noteq> (semverVersion sv' :: sv Version)"
    by simp
  from distinct semver_model_IsNone_None
    semverConstraint_Intersect_version [of semver_model "[(Incl (1, 0, 0), Unbounded)]"
      "(1, 2, 3)" "''abc123''" "Revision ''abc123''"]
  show ?thesis
    by (simp add: semver_model_simps range_Intersect_member del: One_nat_def)
qed

end
